theory Spec2Isabelle
  imports Main
begin

section \<open>JavaScript values\<close>

text \<open>
  The declared TypeScript types are erased at run time: \<open>validate\<close> can be handed a
  non-string, \<open>validateBulk\<close> a non-array, and a decoded response body is whatever the
  server sent. Values are therefore modelled untyped. Numbers are restricted to the
  integers (statuses, counts and millisecond deadlines; JavaScript prints those below
  \<open>10\<^sup>2\<^sup>1\<close> in plain decimal digits); an object is the list of its own properties,
  looked up with \<open>map_of\<close>.
\<close>

datatype jsval =
    JUndefined
  | JNull
  | JBool bool
  | JNum int
  | JStr string
  | JArr "jsval list"
  | JObj "(string \<times> jsval) list"

text \<open>The built-in error classes that the executor's catch block can tell apart.\<close>

datatype builtin_class = ErrorClass | TypeErrorClass | SyntaxErrorClass | DOMExceptionClass

text \<open>The classes of \<open>errors.ts\<close>.\<close>

datatype error_kind =
    Base
  | Authentication
  | RateLimit
  | InsufficientCredits
  | Validation
  | API
  | Network

record vf_error =
  kind :: error_kind
  name :: string
  message :: string
  statusCode :: "int option"
  errorCode :: "string option"
  details :: jsval
  docsUrl :: string

text \<open>
  Anything a \<open>throw\<close> can raise: an instance of \<open>VerifyForgeError\<close> (or of a subclass),
  another \<open>Error\<close> instance with its class, \<open>name\<close> and \<open>message\<close>, or a value that is
  not an \<open>Error\<close> at all.
\<close>

datatype js_thrown =
    VF vf_error
  | JsError builtin_class string string
  | NonError jsval

subsection \<open>Truthiness, typeof, property reads, string conversion\<close>

fun truthy :: "jsval \<Rightarrow> bool" where
  "truthy JUndefined = False"
| "truthy JNull = False"
| "truthy (JBool b) = b"
| "truthy (JNum n) = (n \<noteq> 0)"
| "truthy (JStr s) = (s \<noteq> [])"
| "truthy (JArr xs) = True"
| "truthy (JObj kvs) = True"

fun typeof :: "jsval \<Rightarrow> string" where
  "typeof JUndefined = ''undefined''"
| "typeof JNull = ''object''"
| "typeof (JBool b) = ''boolean''"
| "typeof (JNum n) = ''number''"
| "typeof (JStr s) = ''string''"
| "typeof (JArr xs) = ''object''"
| "typeof (JObj kvs) = ''object''"

text \<open>\<open>a || b\<close> on values.\<close>

definition or_else :: "jsval \<Rightarrow> jsval \<Rightarrow> jsval" where
  "or_else a b = (if truthy a then a else b)"

text \<open>
  \<open>v.k\<close> for the property names the executor reads (\<open>error\<close>, \<open>details\<close>), which no
  built-in prototype defines: reading from \<open>null\<close> or \<open>undefined\<close> throws a
  \<open>TypeError\<close>, an object gives its own property or \<open>undefined\<close>, every other value
  gives \<open>undefined\<close>.
\<close>

fun get_prop :: "jsval \<Rightarrow> string \<Rightarrow> js_thrown + jsval" where
  "get_prop JUndefined k =
     Inl (JsError TypeErrorClass ''TypeError'' (''Cannot read properties of undefined (reading '' @ k @ '')''))"
| "get_prop JNull k =
     Inl (JsError TypeErrorClass ''TypeError'' (''Cannot read properties of null (reading '' @ k @ '')''))"
| "get_prop (JObj kvs) k = Inr (case map_of kvs k of None \<Rightarrow> JUndefined | Some v \<Rightarrow> v)"
| "get_prop v k = Inr JUndefined"

fun digits_of :: "nat \<Rightarrow> string" where
  "digits_of n =
     (if n < 10 then [''0123456789'' ! n]
      else digits_of (n div 10) @ [''0123456789'' ! (n mod 10)])"

declare digits_of.simps [simp del]

text \<open>
  \<open>String(v)\<close>, which is also the conversion the \<open>Error\<close> constructor applies to its
  message. A plain object prints as \<open>[object Object]\<close>; one with an own, hence
  non-callable, \<open>toString\<close> property cannot be converted and throws a \<open>TypeError\<close>. An
  array joins its elements with commas, \<open>null\<close> and \<open>undefined\<close> elements printing as
  nothing.
\<close>

fun js_String :: "jsval \<Rightarrow> js_thrown + string"
  and join_elements :: "jsval list \<Rightarrow> js_thrown + string" where
  "js_String JUndefined = Inr ''undefined''"
| "js_String JNull = Inr ''null''"
| "js_String (JBool b) = Inr (if b then ''true'' else ''false'')"
| "js_String (JNum n) = Inr (if n < 0 then ''-'' @ digits_of (nat (- n)) else digits_of (nat n))"
| "js_String (JStr s) = Inr s"
| "js_String (JArr xs) = join_elements xs"
| "js_String (JObj kvs) =
     (if map_of kvs ''toString'' = None then Inr ''[object Object]''
      else Inl (JsError TypeErrorClass ''TypeError'' ''Cannot convert object to primitive value''))"
| "join_elements [] = Inr []"
| "join_elements (x # xs) =
     (case (if x = JUndefined \<or> x = JNull then Inr [] else js_String x) of
        Inl e \<Rightarrow> Inl e
      | Inr s \<Rightarrow>
          (if xs = [] then Inr s
           else (case join_elements xs of Inl e \<Rightarrow> Inl e | Inr r \<Rightarrow> Inr (s @ '','' @ r))))"

section \<open>The error classes (errors.ts)\<close>

record error_options =
  opt_statusCode :: "int option"
  opt_errorCode :: "string option"
  opt_details :: jsval
  opt_docsUrl :: "string option"

text \<open>
  The base constructor. \<open>options?.f\<close> is \<open>undefined\<close> when the options are absent;
  \<open>options?.docsUrl || '...'\<close> also replaces an empty URL.
\<close>

definition VerifyForgeError :: "string \<Rightarrow> error_options option \<Rightarrow> vf_error" where
  "VerifyForgeError msg options =
     \<lparr> kind = Base,
       name = ''VerifyForgeError'',
       message = msg,
       statusCode = (case options of None \<Rightarrow> None | Some opts \<Rightarrow> opt_statusCode opts),
       errorCode = (case options of None \<Rightarrow> None | Some opts \<Rightarrow> opt_errorCode opts),
       details = (case options of None \<Rightarrow> JUndefined | Some opts \<Rightarrow> opt_details opts),
       docsUrl =
         (case (case options of None \<Rightarrow> None | Some opts \<Rightarrow> opt_docsUrl opts) of
            None \<Rightarrow> ''https://verifyforge.com/api-docs''
          | Some u \<Rightarrow> if u = [] then ''https://verifyforge.com/api-docs'' else u) \<rparr>"

text \<open>
  The subclasses call \<open>super\<close> and then overwrite \<open>name\<close>. A parameter with a default
  value is an \<open>option\<close>: \<open>None\<close> is the omitted argument.
\<close>

definition AuthenticationError :: "string option \<Rightarrow> vf_error" where
  "AuthenticationError msg =
     (VerifyForgeError (case msg of None \<Rightarrow> ''Invalid API key'' | Some m \<Rightarrow> m)
        (Some \<lparr> opt_statusCode = Some 401, opt_errorCode = Some ''AUTHENTICATION_ERROR'',
                 opt_details = JUndefined, opt_docsUrl = None \<rparr>))
     \<lparr> kind := Authentication, name := ''AuthenticationError'' \<rparr>"

definition RateLimitError :: "string option \<Rightarrow> vf_error" where
  "RateLimitError msg =
     (VerifyForgeError (case msg of None \<Rightarrow> ''Rate limit exceeded'' | Some m \<Rightarrow> m)
        (Some \<lparr> opt_statusCode = Some 429, opt_errorCode = Some ''RATE_LIMIT_ERROR'',
                 opt_details = JUndefined, opt_docsUrl = None \<rparr>))
     \<lparr> kind := RateLimit, name := ''RateLimitError'' \<rparr>"

definition InsufficientCreditsError :: "string option \<Rightarrow> vf_error" where
  "InsufficientCreditsError msg =
     (VerifyForgeError (case msg of None \<Rightarrow> ''Insufficient credits'' | Some m \<Rightarrow> m)
        (Some \<lparr> opt_statusCode = Some 402, opt_errorCode = Some ''INSUFFICIENT_CREDITS'',
                 opt_details = JUndefined, opt_docsUrl = None \<rparr>))
     \<lparr> kind := InsufficientCredits, name := ''InsufficientCreditsError'' \<rparr>"

definition ValidationError :: "string \<Rightarrow> jsval \<Rightarrow> vf_error" where
  "ValidationError msg dets =
     (VerifyForgeError msg
        (Some \<lparr> opt_statusCode = Some 400, opt_errorCode = Some ''VALIDATION_ERROR'',
                 opt_details = dets, opt_docsUrl = None \<rparr>))
     \<lparr> kind := Validation, name := ''ValidationError'' \<rparr>"

definition APIError :: "string \<Rightarrow> int option \<Rightarrow> vf_error" where
  "APIError msg code =
     (VerifyForgeError msg
        (Some \<lparr> opt_statusCode = Some (case code of None \<Rightarrow> 500 | Some c \<Rightarrow> c),
                 opt_errorCode = Some ''API_ERROR'',
                 opt_details = JUndefined, opt_docsUrl = None \<rparr>))
     \<lparr> kind := API, name := ''APIError'' \<rparr>"

definition NetworkError :: "string \<Rightarrow> vf_error" where
  "NetworkError msg =
     (VerifyForgeError msg
        (Some \<lparr> opt_statusCode = None, opt_errorCode = Some ''NETWORK_ERROR'',
                 opt_details = JUndefined, opt_docsUrl = None \<rparr>))
     \<lparr> kind := Network, name := ''NetworkError'' \<rparr>"

section \<open>The client (client.ts)\<close>

text \<open>A configuration: \<open>None\<close> is a field that is absent (or \<open>undefined\<close>).\<close>

record VerifyForgeConfig =
  apiKey :: "string option"
  baseUrl :: "string option"
  timeout :: "int option"

record VerifyForge =
  this_apiKey :: string
  this_baseUrl :: string
  this_timeout :: int

datatype http_method = GET | POST

text \<open>
  What one call of \<open>fetch\<close> is given. The query and the body are kept as the values
  handed to \<open>URLSearchParams\<close> and \<open>JSON.stringify\<close>: their serialisation is the
  platform's. \<open>abort_after\<close> is the delay of the timer that aborts the call.
\<close>

record request =
  req_url :: string
  req_query :: "(string \<times> string) list option"
  req_method :: http_method
  req_headers :: "(string \<times> string) list"
  req_body :: "jsval option"
  abort_after :: int

text \<open>
  A response as far as the executor reads it: the status, and what \<open>response.json()\<close>
  settles to (the decoded body, or the exception it rejects with).
\<close>

record response =
  status :: int
  json :: "js_thrown + jsval"

definition ok :: "response \<Rightarrow> bool" where
  "ok r = (200 \<le> status r \<and> status r \<le> 299)"

text \<open>The transport: \<open>fetch\<close> resolves with a response or rejects with an exception.\<close>

type_synonym transport = "request \<Rightarrow> js_thrown + response"

text \<open>
  An operation yields the list of transport calls it issued, in order, and its outcome:
  \<open>Inl\<close> what it throws (or rejects with), \<open>Inr\<close> what it returns.
\<close>

type_synonym 'a outcome = "request list \<times> (js_thrown + 'a)"

text \<open>
  \<open>s.replace(/\/$/, '')\<close>: the pattern matches a slash at the very end of the string
  only, and only that one slash is removed.
\<close>

definition replace_trailing_slash :: "string \<Rightarrow> string" where
  "replace_trailing_slash s = (if s \<noteq> [] \<and> last s = CHR ''/'' then butlast s else s)"

text \<open>
  The constructor (lines 48 to 56). It throws a plain \<open>Error\<close>, not one of the client's
  errors, on a falsy credential; both defaults are applied with \<open>||\<close>, that is, to every
  falsy value. It contains no call of the transport.
\<close>

definition VerifyForge_constructor :: "VerifyForgeConfig \<Rightarrow> VerifyForge outcome" where
  "VerifyForge_constructor config =
     (if (case apiKey config of None \<Rightarrow> True | Some k \<Rightarrow> k = [])
      then ([], Inl (JsError ErrorClass ''Error'' ''API key is required''))
      else
        ([], Inr \<lparr> this_apiKey = (case apiKey config of None \<Rightarrow> [] | Some k \<Rightarrow> k),
                   this_baseUrl =
                     (case baseUrl config of
                        None \<Rightarrow> ''https://verifyforge.com''
                      | Some b \<Rightarrow>
                          if replace_trailing_slash b = [] then ''https://verifyforge.com''
                          else replace_trailing_slash b),
                   this_timeout =
                     (case timeout config of
                        None \<Rightarrow> 30000
                      | Some t \<Rightarrow> if t = 0 then 30000 else t) \<rparr>))"

definition getBaseUrl :: "VerifyForge \<Rightarrow> string" where
  "getBaseUrl this = this_baseUrl this"

definition getTimeout :: "VerifyForge \<Rightarrow> int" where
  "getTimeout this = this_timeout this"

subsection \<open>The request executor\<close>

text \<open>
  The loop that fills \<open>searchParams\<close>: an entry whose value is \<open>undefined\<close> or \<open>null\<close>
  is skipped, every other value is appended as \<open>String(value)\<close>.
\<close>

fun search_params :: "(string \<times> jsval) list \<Rightarrow> js_thrown + (string \<times> string) list" where
  "search_params [] = Inr []"
| "search_params ((key, v) # rest) =
     (if v \<noteq> JUndefined \<and> v \<noteq> JNull then
        (case js_String v of
           Inl e \<Rightarrow> Inl e
         | Inr s \<Rightarrow> (case search_params rest of Inl e \<Rightarrow> Inl e | Inr ps \<Rightarrow> Inr ((key, s) # ps)))
      else search_params rest)"

text \<open>
  The \<open>try\<close> block after \<open>fetch\<close> has resolved (lines 104 to 138): the dispatch on the
  status. \<open>Inl\<close> is what the block throws, be it one of the client's errors or an
  exception of \<open>response.json()\<close>, of a property read or of the message conversion.
\<close>

definition dispatch :: "response \<Rightarrow> js_thrown + jsval" where
  "dispatch response =
     (if status response = 401 then Inl (VF (AuthenticationError (Some ''Invalid API key'')))
      else if status response = 402 then
        Inl (VF (InsufficientCreditsError (Some ''Insufficient credits'')))
      else if status response = 429 then Inl (VF (RateLimitError (Some ''Rate limit exceeded'')))
      else if status response = 400 then
        (case json response of
           Inl e \<Rightarrow> Inl e
         | Inr errorData \<Rightarrow>
             (case get_prop errorData ''error'' of
                Inl e \<Rightarrow> Inl e
              | Inr err \<Rightarrow>
                  (case get_prop errorData ''details'' of
                     Inl e \<Rightarrow> Inl e
                   | Inr dets \<Rightarrow>
                       (case js_String (or_else err (JStr ''Validation failed'')) of
                          Inl e \<Rightarrow> Inl e
                        | Inr msg \<Rightarrow> Inl (VF (ValidationError msg dets))))))
      else if status response \<ge> 500 then
        Inl (VF (APIError ''Internal server error'' (Some (status response))))
      else if \<not> ok response then
        (case get_prop
                (case json response of
                   Inl e \<Rightarrow> JObj [(''error'', JStr ''Request failed'')]
                 | Inr errorData \<Rightarrow> errorData)
                ''error'' of
           Inl e \<Rightarrow> Inl e
         | Inr err \<Rightarrow>
             (case js_String (or_else err (JStr ''Request failed'')) of
                Inl e \<Rightarrow> Inl e
              | Inr msg \<Rightarrow> Inl (VF (APIError msg (Some (status response))))))
      else json response)"

text \<open>The \<open>catch\<close> block (lines 139 to 161): it always throws one of the client's errors.\<close>

fun handle_caught :: "js_thrown \<Rightarrow> vf_error" where
  "handle_caught (VF e) = e"
| "handle_caught (JsError c n m) =
     (if n = ''AbortError'' then NetworkError ''Request timed out''
      else if c = TypeErrorClass then NetworkError ''Network request failed''
      else VerifyForgeError m None)"
| "handle_caught (NonError v) = VerifyForgeError ''Unknown error occurred'' None"

definition fixed_headers :: "VerifyForge \<Rightarrow> (string \<times> string) list" where
  "fixed_headers this =
     [(''X-API-Key'', this_apiKey this),
      (''Content-Type'', ''application/json''),
      (''Accept'', ''application/json''),
      (''User-Agent'', ''VerifyForge-TypeScript-SDK/1.0.0'')]"

text \<open>
  \<open>makeRequest\<close> (lines 67 to 162). The query is built before the \<open>try\<close>, so an
  exception there escapes as it is and no call is issued; everything from \<open>fetch\<close> on
  goes through the \<open>catch\<close> block. The executor calls the transport once: there is no
  retry.
\<close>

definition makeRequest ::
  "transport \<Rightarrow> VerifyForge \<Rightarrow> http_method \<Rightarrow> string \<Rightarrow> (string \<times> jsval) list option
     \<Rightarrow> jsval outcome" where
  "makeRequest fetch this method endpoint params =
     (case (case params of
              None \<Rightarrow> Inr None
            | Some ps \<Rightarrow>
                if method = GET then
                  (case search_params ps of Inl e \<Rightarrow> Inl e | Inr q \<Rightarrow> Inr (Some q))
                else Inr None) of
        Inl e \<Rightarrow> ([], Inl e)
      | Inr query \<Rightarrow>
          (let req = \<lparr> req_url = this_baseUrl this @ endpoint,
                       req_query = query,
                       req_method = method,
                       req_headers = fixed_headers this,
                       req_body =
                         (case params of
                            None \<Rightarrow> None
                          | Some ps \<Rightarrow> if method = POST then Some (JObj ps) else None),
                       abort_after = this_timeout this \<rparr>
           in ([req],
               (case fetch req of
                  Inl e \<Rightarrow> Inl (VF (handle_caught e))
                | Inr response \<Rightarrow>
                    (case dispatch response of
                       Inl e \<Rightarrow> Inl (VF (handle_caught e))
                     | Inr v \<Rightarrow> Inr v)))))"

subsection \<open>The public operations\<close>

text \<open>\<open>validate\<close> (lines 187 to 195).\<close>

definition validate :: "transport \<Rightarrow> VerifyForge \<Rightarrow> jsval \<Rightarrow> jsval outcome" where
  "validate fetch this email =
     (if \<not> truthy email \<or> typeof email \<noteq> ''string'' then
        ([], Inl (VF (ValidationError ''Email must be a non-empty string'' JUndefined)))
      else makeRequest fetch this GET ''/api/validate'' (Some [(''email'', email)]))"

fun isArray :: "jsval \<Rightarrow> bool" where
  "isArray (JArr xs) = True"
| "isArray v = False"

text \<open>\<open>emails.length\<close>, read only once \<open>emails\<close> is known to be an array.\<close>

fun array_length :: "jsval \<Rightarrow> int" where
  "array_length (JArr xs) = int (length xs)"
| "array_length v = 0"

text \<open>\<open>validateBulk\<close> (lines 221 to 238). The elements of the array are not inspected.\<close>

definition validateBulk :: "transport \<Rightarrow> VerifyForge \<Rightarrow> jsval \<Rightarrow> jsval outcome" where
  "validateBulk fetch this emails =
     (if \<not> isArray emails \<or> array_length emails = 0 then
        ([], Inl (VF (ValidationError ''Emails must be a non-empty array'' JUndefined)))
      else if array_length emails > 100 then
        ([], Inl (VF (ValidationError ''Maximum 100 emails allowed per request''
                        (JObj [(''provided'', JNum (array_length emails)),
                               (''maximum'', JNum 100)]))))
      else makeRequest fetch this POST ''/api/validate/bulk'' (Some [(''emails'', emails)]))"

section \<open>Basic facts\<close>

lemma error_kinds:
  "kind (VerifyForgeError m opts) = Base"
  "kind (AuthenticationError mo) = Authentication"
  "kind (RateLimitError mo) = RateLimit"
  "kind (InsufficientCreditsError mo) = InsufficientCredits"
  "kind (ValidationError m d) = Validation"
  "kind (APIError m c) = API"
  "kind (NetworkError m) = Network"
  by (simp_all add: VerifyForgeError_def AuthenticationError_def RateLimitError_def
      InsufficientCreditsError_def ValidationError_def APIError_def NetworkError_def)

lemma error_messages:
  "message (VerifyForgeError m opts) = m"
  "message (AuthenticationError (Some m)) = m"
  "message (RateLimitError (Some m)) = m"
  "message (InsufficientCreditsError (Some m)) = m"
  "message (ValidationError m d) = m"
  "message (APIError m c) = m"
  "message (NetworkError m) = m"
  by (simp_all add: VerifyForgeError_def AuthenticationError_def RateLimitError_def
      InsufficientCreditsError_def ValidationError_def APIError_def NetworkError_def)

lemma error_details:
  "details (ValidationError m d) = d"
  by (simp add: VerifyForgeError_def ValidationError_def)

lemma error_statusCodes:
  "statusCode (APIError m (Some c)) = Some c"
  "statusCode (NetworkError m) = None"
  "statusCode (VerifyForgeError m None) = None"
  by (simp_all add: VerifyForgeError_def APIError_def NetworkError_def)

text \<open>
  Once the executor has issued its call, its outcome is the outcome of the \<open>try\<close> block
  with every exception passed through the \<open>catch\<close> block.
\<close>

lemma makeRequest_issued:
  assumes "fst (makeRequest fetch this method endpoint params) = [req]"
  shows "snd (makeRequest fetch this method endpoint params) =
     (case fetch req of
        Inl e \<Rightarrow> Inl (VF (handle_caught e))
      | Inr response \<Rightarrow>
          (case dispatch response of Inl e \<Rightarrow> Inl (VF (handle_caught e)) | Inr v \<Rightarrow> Inr v))"
  using assms
  by (auto simp: makeRequest_def Let_def split: option.splits sum.splits if_splits)

lemma makeRequest_resolved:
  assumes "fst (makeRequest fetch this method endpoint params) = [req]"
    and "fetch req = Inr response"
  shows "snd (makeRequest fetch this method endpoint params) =
     (case dispatch response of Inl e \<Rightarrow> Inl (VF (handle_caught e)) | Inr v \<Rightarrow> Inr v)"
  using makeRequest_issued [OF assms(1)] assms(2) by simp

text \<open>The call that \<open>validate\<close> issues for a non-empty string.\<close>

lemma validate_string:
  "s \<noteq> [] \<Longrightarrow>
   validate fetch this (JStr s) =
     makeRequest fetch this GET ''/api/validate'' (Some [(''email'', JStr s)])"
  by (simp add: validate_def)

lemma makeRequest_validate_call:
  "fst (makeRequest fetch this GET ''/api/validate'' (Some [(''email'', JStr s)])) =
     [\<lparr> req_url = this_baseUrl this @ ''/api/validate'',
         req_query = Some [(''email'', s)],
         req_method = GET,
         req_headers = fixed_headers this,
         req_body = None,
         abort_after = this_timeout this \<rparr>]"
  by (simp add: makeRequest_def Let_def)

text \<open>The call that \<open>validateBulk\<close> issues once its checks have passed.\<close>

lemma makeRequest_bulk_call:
  "fst (makeRequest fetch this POST ''/api/validate/bulk'' (Some [(''emails'', emails)])) =
     [\<lparr> req_url = this_baseUrl this @ ''/api/validate/bulk'',
         req_query = None,
         req_method = POST,
         req_headers = fixed_headers this,
         req_body = Some (JObj [(''emails'', emails)]),
         abort_after = this_timeout this \<rparr>]"
  by (simp add: makeRequest_def Let_def)

section \<open>The status dispatch\<close>

text \<open>
  C1. Whenever the executor has issued its call and the transport has resolved with a
  response, a status of 401 makes it throw an Authentication error with the message
  "Invalid API key", 402 an InsufficientCredits error with "Insufficient credits", and
  429 a RateLimit error with "Rate limit exceeded". The response's body is arbitrary in
  each case: it is never read, and no other branch of the dispatch is reached.
\<close>

theorem C1_auth_credits_rate_limit:
  assumes "fst (makeRequest fetch this method endpoint params) = [req]"
    and "fetch req = Inr response"
  shows "(status response = 401 \<longrightarrow>
            (\<exists>e. snd (makeRequest fetch this method endpoint params) = Inl (VF e)
               \<and> kind e = Authentication \<and> message e = ''Invalid API key''))
       \<and> (status response = 402 \<longrightarrow>
            (\<exists>e. snd (makeRequest fetch this method endpoint params) = Inl (VF e)
               \<and> kind e = InsufficientCredits \<and> message e = ''Insufficient credits''))
       \<and> (status response = 429 \<longrightarrow>
            (\<exists>e. snd (makeRequest fetch this method endpoint params) = Inl (VF e)
               \<and> kind e = RateLimit \<and> message e = ''Rate limit exceeded''))"
proof -
  note out = makeRequest_resolved [OF assms]
  have a: "status response = 401 \<Longrightarrow>
      dispatch response = Inl (VF (AuthenticationError (Some ''Invalid API key'')))"
    by (simp add: dispatch_def)
  have b: "status response = 402 \<Longrightarrow>
      dispatch response = Inl (VF (InsufficientCreditsError (Some ''Insufficient credits'')))"
    by (simp add: dispatch_def)
  have c: "status response = 429 \<Longrightarrow>
      dispatch response = Inl (VF (RateLimitError (Some ''Rate limit exceeded'')))"
    by (simp add: dispatch_def)
  show ?thesis
    using a b c by (auto simp: out error_kinds error_messages)
qed

text \<open>
  A transport that answers 401 with a body that is no error payload, one that answers
  402 with a body that does not decode, and one that answers 429 with the body \<open>null\<close>.
\<close>

theorem C1_auth_credits_rate_limit_witness:
  "(\<exists>e. snd (validate (\<lambda>r. Inr \<lparr>status = 401, json = Inr (JStr ''anything'')\<rparr>)
            \<lparr>this_apiKey = ''k1'', this_baseUrl = ''https://verifyforge.com'',
              this_timeout = 30000\<rparr>
            (JStr ''a@b.com'')) = Inl (VF e)
       \<and> kind e = Authentication \<and> message e = ''Invalid API key'')
   \<and> (\<exists>e. snd (validate
            (\<lambda>r. Inr \<lparr>status = 402,
                       json = Inl (JsError SyntaxErrorClass ''SyntaxError''
                                    ''Unexpected end of JSON input'')\<rparr>)
            \<lparr>this_apiKey = ''k1'', this_baseUrl = ''https://verifyforge.com'',
              this_timeout = 30000\<rparr>
            (JStr ''a@b.com'')) = Inl (VF e)
       \<and> kind e = InsufficientCredits \<and> message e = ''Insufficient credits'')
   \<and> (\<exists>e. snd (validate (\<lambda>r. Inr \<lparr>status = 429, json = Inr JNull\<rparr>)
            \<lparr>this_apiKey = ''k1'', this_baseUrl = ''https://verifyforge.com'',
              this_timeout = 30000\<rparr>
            (JStr ''a@b.com'')) = Inl (VF e)
       \<and> kind e = RateLimit \<and> message e = ''Rate limit exceeded'')"
proof -
  let ?c = "\<lparr>this_apiKey = ''k1'', this_baseUrl = ''https://verifyforge.com'',
             this_timeout = 30000\<rparr>"
  let ?p = "Some [(''email'', JStr ''a@b.com'')]"
  let ?r1 = "\<lparr>status = 401, json = Inr (JStr ''anything'')\<rparr>"
  let ?r2 = "\<lparr>status = 402,
      json = Inl (JsError SyntaxErrorClass ''SyntaxError'' ''Unexpected end of JSON input'')\<rparr>"
  let ?r3 = "\<lparr>status = 429, json = Inr JNull\<rparr>"
  obtain q1 where i1:
    "fst (makeRequest (\<lambda>r. Inr ?r1) ?c GET ''/api/validate'' ?p) = [q1]"
    using makeRequest_validate_call by blast
  obtain q2 where i2:
    "fst (makeRequest (\<lambda>r. Inr ?r2) ?c GET ''/api/validate'' ?p) = [q2]"
    using makeRequest_validate_call by blast
  obtain q3 where i3:
    "fst (makeRequest (\<lambda>r. Inr ?r3) ?c GET ''/api/validate'' ?p) = [q3]"
    using makeRequest_validate_call by blast
  have 1: "\<exists>e. snd (validate (\<lambda>r. Inr ?r1) ?c (JStr ''a@b.com'')) = Inl (VF e)
       \<and> kind e = Authentication \<and> message e = ''Invalid API key''"
    using C1_auth_credits_rate_limit [OF i1, of ?r1] by (simp add: validate_string)
  have 2: "\<exists>e. snd (validate (\<lambda>r. Inr ?r2) ?c (JStr ''a@b.com'')) = Inl (VF e)
       \<and> kind e = InsufficientCredits \<and> message e = ''Insufficient credits''"
    using C1_auth_credits_rate_limit [OF i2, of ?r2] by (simp add: validate_string)
  have 3: "\<exists>e. snd (validate (\<lambda>r. Inr ?r3) ?c (JStr ''a@b.com'')) = Inl (VF e)
       \<and> kind e = RateLimit \<and> message e = ''Rate limit exceeded''"
    using C1_auth_credits_rate_limit [OF i3, of ?r3] by (simp add: validate_string)
  show ?thesis using 1 2 3 by blast
qed

section \<open>The client-side checks\<close>

text \<open>
  C2. \<open>validateBulk\<close> called with a value that is not an array, with the empty array, or
  with an array of more than 100 elements throws a Validation error and issues no
  transport call; over 100 elements the error's details are the mapping of \<open>provided\<close> to
  the array's length and of \<open>maximum\<close> to 100. For an array of 1 to 100 elements the
  checks pass: the operation is the executor's POST, which issues one call.
\<close>

theorem C2_validateBulk_checks:
  "((\<forall>xs. emails \<noteq> JArr xs) \<longrightarrow>
      (\<exists>e. validateBulk fetch this emails = ([], Inl (VF e)) \<and> kind e = Validation))
   \<and> (\<exists>e. validateBulk fetch this (JArr []) = ([], Inl (VF e)) \<and> kind e = Validation)
   \<and> (length xs > 100 \<longrightarrow>
        (\<exists>e. validateBulk fetch this (JArr xs) = ([], Inl (VF e)) \<and> kind e = Validation
           \<and> details e = JObj [(''provided'', JNum (int (length xs))), (''maximum'', JNum 100)]))
   \<and> (1 \<le> length xs \<and> length xs \<le> 100 \<longrightarrow>
        validateBulk fetch this (JArr xs) =
          makeRequest fetch this POST ''/api/validate/bulk'' (Some [(''emails'', JArr xs)])
        \<and> length (fst (validateBulk fetch this (JArr xs))) = 1)"
proof -
  have a: "(\<forall>xs. emails \<noteq> JArr xs) \<Longrightarrow> \<not> isArray emails"
    by (cases emails) simp_all
  have 1: "(\<forall>xs. emails \<noteq> JArr xs) \<longrightarrow>
      (\<exists>e. validateBulk fetch this emails = ([], Inl (VF e)) \<and> kind e = Validation)"
    using a by (auto simp: validateBulk_def error_kinds)
  have 2: "\<exists>e. validateBulk fetch this (JArr []) = ([], Inl (VF e)) \<and> kind e = Validation"
    by (simp add: validateBulk_def error_kinds)
  have 3: "length xs > 100 \<longrightarrow>
        (\<exists>e. validateBulk fetch this (JArr xs) = ([], Inl (VF e)) \<and> kind e = Validation
           \<and> details e = JObj [(''provided'', JNum (int (length xs))), (''maximum'', JNum 100)])"
    by (auto simp: validateBulk_def error_kinds error_details)
  have 4: "1 \<le> length xs \<and> length xs \<le> 100 \<longrightarrow>
        validateBulk fetch this (JArr xs) =
          makeRequest fetch this POST ''/api/validate/bulk'' (Some [(''emails'', JArr xs)])"
    by (auto simp: validateBulk_def)
  have 5: "1 \<le> length xs \<and> length xs \<le> 100 \<longrightarrow>
        length (fst (validateBulk fetch this (JArr xs))) = 1"
    using 4 by (simp add: makeRequest_bulk_call)
  show ?thesis using 1 2 3 4 5 by blast
qed

text \<open>A string in place of the array, 101 addresses, and two addresses.\<close>

theorem C2_validateBulk_checks_witness:
  "(\<exists>e. validateBulk (\<lambda>r. Inl (NonError JNull))
           \<lparr>this_apiKey = ''k1'', this_baseUrl = ''https://verifyforge.com'',
             this_timeout = 30000\<rparr>
           (JStr ''a@b.com'') = ([], Inl (VF e)) \<and> kind e = Validation)
   \<and> (\<exists>e. validateBulk (\<lambda>r. Inl (NonError JNull))
           \<lparr>this_apiKey = ''k1'', this_baseUrl = ''https://verifyforge.com'',
             this_timeout = 30000\<rparr>
           (JArr (replicate 101 (JStr ''a@b.com''))) = ([], Inl (VF e)) \<and> kind e = Validation
           \<and> details e = JObj [(''provided'', JNum 101), (''maximum'', JNum 100)])
   \<and> length (fst (validateBulk (\<lambda>r. Inl (NonError JNull))
           \<lparr>this_apiKey = ''k1'', this_baseUrl = ''https://verifyforge.com'',
             this_timeout = 30000\<rparr>
           (JArr [JStr ''a@b.com'', JStr ''c@d.org'']))) = 1"
  using C2_validateBulk_checks [of "JStr ''a@b.com''" "\<lambda>r. Inl (NonError JNull)"
      "\<lparr>this_apiKey = ''k1'', this_baseUrl = ''https://verifyforge.com'',
        this_timeout = 30000\<rparr>"
      "replicate 101 (JStr ''a@b.com'')"]
    C2_validateBulk_checks [of "JStr ''a@b.com''" "\<lambda>r. Inl (NonError JNull)"
      "\<lparr>this_apiKey = ''k1'', this_baseUrl = ''https://verifyforge.com'',
        this_timeout = 30000\<rparr>"
      "[JStr ''a@b.com'', JStr ''c@d.org'']"]
  by (simp add: makeRequest_bulk_call)

text \<open>
  C3. \<open>validate\<close> called with a value that is not a string, or with the empty string,
  throws a Validation error and issues no transport call. For a non-empty string the
  check passes: the operation is the executor's GET with the address as the \<open>email\<close>
  query parameter, and that issues one call.
\<close>

theorem C3_validate_checks:
  "((\<forall>s. email \<noteq> JStr s) \<or> email = JStr [] \<longrightarrow>
      (\<exists>e. validate fetch this email = ([], Inl (VF e)) \<and> kind e = Validation))
   \<and> (s \<noteq> [] \<longrightarrow>
        validate fetch this (JStr s) =
          makeRequest fetch this GET ''/api/validate'' (Some [(''email'', JStr s)])
        \<and> (\<exists>req. fst (validate fetch this (JStr s)) = [req]
              \<and> req_query req = Some [(''email'', s)]))"
proof -
  have a: "(\<forall>s. email \<noteq> JStr s) \<Longrightarrow> typeof email \<noteq> ''string''"
    by (cases email) simp_all
  have 1: "(\<forall>s. email \<noteq> JStr s) \<or> email = JStr [] \<longrightarrow>
      (\<exists>e. validate fetch this email = ([], Inl (VF e)) \<and> kind e = Validation)"
    using a by (auto simp: validate_def error_kinds)
  have 2: "s \<noteq> [] \<longrightarrow>
        validate fetch this (JStr s) =
          makeRequest fetch this GET ''/api/validate'' (Some [(''email'', JStr s)])"
    by (simp add: validate_string)
  have 3: "s \<noteq> [] \<longrightarrow> (\<exists>req. fst (validate fetch this (JStr s)) = [req]
              \<and> req_query req = Some [(''email'', s)])"
    by (simp add: validate_string makeRequest_validate_call)
  show ?thesis using 1 2 3 by blast
qed

text \<open>A number in place of the address, and an address.\<close>

theorem C3_validate_checks_witness:
  "(\<exists>e. validate (\<lambda>r. Inl (NonError JNull))
           \<lparr>this_apiKey = ''k1'', this_baseUrl = ''https://verifyforge.com'',
             this_timeout = 30000\<rparr>
           (JNum 42) = ([], Inl (VF e)) \<and> kind e = Validation)
   \<and> (\<exists>req. fst (validate (\<lambda>r. Inl (NonError JNull))
           \<lparr>this_apiKey = ''k1'', this_baseUrl = ''https://verifyforge.com'',
             this_timeout = 30000\<rparr>
           (JStr ''a@b.com'')) = [req] \<and> req_query req = Some [(''email'', ''a@b.com'')])"
  using C3_validate_checks [of "JNum 42" "\<lambda>r. Inl (NonError JNull)"
      "\<lparr>this_apiKey = ''k1'', this_baseUrl = ''https://verifyforge.com'',
        this_timeout = 30000\<rparr>"
      "''a@b.com''"]
  by (simp add: makeRequest_validate_call)

section \<open>Successful responses\<close>

text \<open>
  C6. When the transport has resolved with a 2xx response, the executor returns whatever
  the body decodes to, as it is. When decoding fails (\<open>response.json()\<close> rejects with a
  \<open>SyntaxError\<close>), it throws a base-kind error that carries the decoder's message and no
  status code; \<open>error_kind\<close> has no kind for a malformed response.
\<close>

theorem C6_success_round_trip:
  assumes "fst (makeRequest fetch this method endpoint params) = [req]"
    and "fetch req = Inr response"
    and "200 \<le> status response" and "status response \<le> 299"
  shows "(json response = Inr v \<longrightarrow>
            snd (makeRequest fetch this method endpoint params) = Inr v)
       \<and> (json response = Inl (JsError SyntaxErrorClass ''SyntaxError'' m) \<longrightarrow>
            (\<exists>e. snd (makeRequest fetch this method endpoint params) = Inl (VF e)
               \<and> kind e = Base \<and> message e = m \<and> statusCode e = None))"
proof -
  have d: "dispatch response = json response"
    using assms(3,4) by (simp add: dispatch_def ok_def)
  show ?thesis
    by (auto simp: makeRequest_resolved [OF assms(1,2)] d error_kinds error_messages
        error_statusCodes)
qed

text \<open>A 200 with a validation response, and a 200 whose body is cut short.\<close>

theorem C6_success_round_trip_witness:
  "snd (validate
         (\<lambda>r. Inr \<lparr>status = 200,
                    json = Inr (JObj [(''success'', JBool True),
                                      (''data'', JObj [(''email'', JStr ''a@b.com''),
                                                       (''isValid'', JBool True)]),
                                      (''creditsUsed'', JNum 1),
                                      (''remainingCredits'', JNum 99)])\<rparr>)
         \<lparr>this_apiKey = ''k1'', this_baseUrl = ''https://verifyforge.com'',
           this_timeout = 30000\<rparr>
         (JStr ''a@b.com''))
     = Inr (JObj [(''success'', JBool True),
                  (''data'', JObj [(''email'', JStr ''a@b.com''), (''isValid'', JBool True)]),
                  (''creditsUsed'', JNum 1),
                  (''remainingCredits'', JNum 99)])
   \<and> (\<exists>e. snd (validate
         (\<lambda>r. Inr \<lparr>status = 200,
                    json = Inl (JsError SyntaxErrorClass ''SyntaxError''
                                 ''Unexpected end of JSON input'')\<rparr>)
         \<lparr>this_apiKey = ''k1'', this_baseUrl = ''https://verifyforge.com'',
           this_timeout = 30000\<rparr>
         (JStr ''a@b.com'')) = Inl (VF e)
        \<and> kind e = Base \<and> message e = ''Unexpected end of JSON input'')"
proof -
  let ?c = "\<lparr>this_apiKey = ''k1'', this_baseUrl = ''https://verifyforge.com'',
             this_timeout = 30000\<rparr>"
  let ?v = "JObj [(''success'', JBool True),
                  (''data'', JObj [(''email'', JStr ''a@b.com''), (''isValid'', JBool True)]),
                  (''creditsUsed'', JNum 1),
                  (''remainingCredits'', JNum 99)]"
  let ?f = "\<lambda>r::request. (Inr \<lparr>status = 200, json = Inr ?v\<rparr> :: js_thrown + response)"
  let ?g = "\<lambda>r::request. (Inr \<lparr>status = 200,
      json = Inl (JsError SyntaxErrorClass ''SyntaxError'' ''Unexpected end of JSON input'')\<rparr>
      :: js_thrown + response)"
  obtain r where i:
    "fst (makeRequest ?f ?c GET ''/api/validate'' (Some [(''email'', JStr ''a@b.com'')])) = [r]"
    using makeRequest_validate_call by blast
  obtain r' where i':
    "fst (makeRequest ?g ?c GET ''/api/validate'' (Some [(''email'', JStr ''a@b.com'')])) = [r']"
    using makeRequest_validate_call by blast
  have 1: "snd (validate ?f ?c (JStr ''a@b.com'')) = Inr ?v"
    using C6_success_round_trip [OF i, of "\<lparr>status = 200, json = Inr ?v\<rparr>" ?v]
    by (simp add: validate_string)
  have 2: "\<exists>e. snd (validate ?g ?c (JStr ''a@b.com'')) = Inl (VF e)
        \<and> kind e = Base \<and> message e = ''Unexpected end of JSON input''"
    using C6_success_round_trip [OF i', of "\<lparr>status = 200,
      json = Inl (JsError SyntaxErrorClass ''SyntaxError'' ''Unexpected end of JSON input'')\<rparr>"
      _ "''Unexpected end of JSON input''"]
    by (auto simp add: validate_string)
  show ?thesis using 1 2 by blast
qed

section \<open>The catch block\<close>






section \<open>Construction\<close>

text \<open>
  C8 as stated fails: a given endpoint root of \<open>/\<close> is not resolved to the root with
  its slash removed (the empty string) but to the default, and a given deadline of 0 is
  not resolved to 0 but to 30000.
\<close>

theorem C8_counterexample:
  "snd (VerifyForge_constructor \<lparr>apiKey = Some ''k1'', baseUrl = Some ''/'', timeout = Some 0\<rparr>)
     = Inr \<lparr>this_apiKey = ''k1'', this_baseUrl = ''https://verifyforge.com'',
             this_timeout = 30000\<rparr>
   \<and> getBaseUrl \<lparr>this_apiKey = ''k1'', this_baseUrl = ''https://verifyforge.com'',
                  this_timeout = 30000\<rparr> \<noteq> replace_trailing_slash ''/''
   \<and> getTimeout \<lparr>this_apiKey = ''k1'', this_baseUrl = ''https://verifyforge.com'',
                  this_timeout = 30000\<rparr> \<noteq> 0"
  by (simp add: VerifyForge_constructor_def replace_trailing_slash_def getBaseUrl_def
      getTimeout_def)

lemma replace_trailing_slash_append:
  "replace_trailing_slash (b @ ''/'') = b"
  by (simp add: replace_trailing_slash_def)

lemma replace_trailing_slash_other:
  "b \<noteq> [] \<Longrightarrow> last b \<noteq> CHR ''/'' \<Longrightarrow> replace_trailing_slash b = b"
  by (simp add: replace_trailing_slash_def)

text \<open>
  C8, amended. The constructor issues no transport call. With an absent or empty
  credential it throws the error "API key is required". Otherwise it returns a client
  whose \<open>getBaseUrl\<close> is the given endpoint root with one trailing slash removed when
  that is not empty, and \<open>https://verifyforge.com\<close> when no root is given, and whose
  \<open>getTimeout\<close> is the given deadline when that is not 0, and 30000 when none is given.
\<close>

theorem C8_constructor_resolution:
  "fst (VerifyForge_constructor config) = []
   \<and> (apiKey config = None \<or> apiKey config = Some [] \<longrightarrow>
        snd (VerifyForge_constructor config) = Inl (JsError ErrorClass ''Error'' ''API key is required''))
   \<and> (apiKey config = Some k \<and> k \<noteq> [] \<longrightarrow>
        (\<exists>c. snd (VerifyForge_constructor config) = Inr c
           \<and> (baseUrl config = None \<longrightarrow> getBaseUrl c = ''https://verifyforge.com'')
           \<and> (\<forall>b. baseUrl config = Some (b @ ''/'') \<and> b \<noteq> [] \<longrightarrow> getBaseUrl c = b)
           \<and> (\<forall>b. baseUrl config = Some b \<and> b \<noteq> [] \<and> last b \<noteq> CHR ''/'' \<longrightarrow> getBaseUrl c = b)
           \<and> (timeout config = None \<longrightarrow> getTimeout c = 30000)
           \<and> (\<forall>t. timeout config = Some t \<and> t \<noteq> 0 \<longrightarrow> getTimeout c = t)))"
proof -
  have 1: "fst (VerifyForge_constructor config) = []"
    by (simp add: VerifyForge_constructor_def)
  have 2: "apiKey config = None \<or> apiKey config = Some [] \<longrightarrow>
        snd (VerifyForge_constructor config) = Inl (JsError ErrorClass ''Error'' ''API key is required'')"
    by (auto simp: VerifyForge_constructor_def)
  have 3: "apiKey config = Some k \<and> k \<noteq> [] \<longrightarrow>
        (\<exists>c. snd (VerifyForge_constructor config) = Inr c
           \<and> (baseUrl config = None \<longrightarrow> getBaseUrl c = ''https://verifyforge.com'')
           \<and> (\<forall>b. baseUrl config = Some (b @ ''/'') \<and> b \<noteq> [] \<longrightarrow> getBaseUrl c = b)
           \<and> (\<forall>b. baseUrl config = Some b \<and> b \<noteq> [] \<and> last b \<noteq> CHR ''/'' \<longrightarrow> getBaseUrl c = b)
           \<and> (timeout config = None \<longrightarrow> getTimeout c = 30000)
           \<and> (\<forall>t. timeout config = Some t \<and> t \<noteq> 0 \<longrightarrow> getTimeout c = t))"
    by (auto simp: VerifyForge_constructor_def getBaseUrl_def getTimeout_def
        replace_trailing_slash_append replace_trailing_slash_other)
  show ?thesis using 1 2 3 by blast
qed

text \<open>An empty credential; a root with a trailing slash and a deadline; the defaults.\<close>

theorem C8_constructor_resolution_witness:
  "snd (VerifyForge_constructor \<lparr>apiKey = Some [], baseUrl = None, timeout = None\<rparr>)
     = Inl (JsError ErrorClass ''Error'' ''API key is required'')
   \<and> (\<exists>c. snd (VerifyForge_constructor
               \<lparr>apiKey = Some ''k1'', baseUrl = Some ''https://eu.verifyforge.com/'',
                 timeout = Some 60000\<rparr>) = Inr c
         \<and> getBaseUrl c = ''https://eu.verifyforge.com'' \<and> getTimeout c = 60000)
   \<and> (\<exists>c. snd (VerifyForge_constructor
               \<lparr>apiKey = Some ''k1'', baseUrl = None, timeout = None\<rparr>) = Inr c
         \<and> getBaseUrl c = ''https://verifyforge.com'' \<and> getTimeout c = 30000)"
proof -
  have 1: "snd (VerifyForge_constructor \<lparr>apiKey = Some [], baseUrl = None, timeout = None\<rparr>)
     = Inl (JsError ErrorClass ''Error'' ''API key is required'')"
    using C8_constructor_resolution [of "\<lparr>apiKey = Some [], baseUrl = None, timeout = None\<rparr>"]
    by simp
  have 2: "\<exists>c. snd (VerifyForge_constructor
               \<lparr>apiKey = Some ''k1'', baseUrl = Some ''https://eu.verifyforge.com/'',
                 timeout = Some 60000\<rparr>) = Inr c
         \<and> getBaseUrl c = ''https://eu.verifyforge.com'' \<and> getTimeout c = 60000"
    using C8_constructor_resolution [of "\<lparr>apiKey = Some ''k1'',
        baseUrl = Some ''https://eu.verifyforge.com/'', timeout = Some 60000\<rparr>" "''k1''"]
    by auto
  have 3: "\<exists>c. snd (VerifyForge_constructor
               \<lparr>apiKey = Some ''k1'', baseUrl = None, timeout = None\<rparr>) = Inr c
         \<and> getBaseUrl c = ''https://verifyforge.com'' \<and> getTimeout c = 30000"
    using C8_constructor_resolution [of "\<lparr>apiKey = Some ''k1'', baseUrl = None,
        timeout = None\<rparr>" "''k1''"]
    by auto
  show ?thesis using 1 2 3 by blast
qed

text \<open>
  C10. A given deadline of 0 resolves to 30000, and a given endpoint root that is empty
  or is \<open>/\<close> resolves to \<open>https://verifyforge.com\<close>; so no client that the constructor
  returns has a \<open>getTimeout\<close> of 0 or an empty \<open>getBaseUrl\<close>.
\<close>

theorem C10_falsy_configuration:
  "(timeout config = Some 0 \<and> snd (VerifyForge_constructor config) = Inr c \<longrightarrow>
      getTimeout c = 30000)
   \<and> ((baseUrl config = Some [] \<or> baseUrl config = Some ''/'')
        \<and> snd (VerifyForge_constructor config) = Inr c \<longrightarrow>
      getBaseUrl c = ''https://verifyforge.com'')
   \<and> (snd (VerifyForge_constructor config) = Inr c \<longrightarrow>
        getTimeout c \<noteq> 0 \<and> getBaseUrl c \<noteq> [])"
proof -
  have 1: "timeout config = Some 0 \<and> snd (VerifyForge_constructor config) = Inr c \<longrightarrow>
      getTimeout c = 30000"
    by (auto simp: VerifyForge_constructor_def getTimeout_def split: if_splits)
  have 2: "(baseUrl config = Some [] \<or> baseUrl config = Some ''/'')
        \<and> snd (VerifyForge_constructor config) = Inr c \<longrightarrow>
      getBaseUrl c = ''https://verifyforge.com''"
    by (auto simp: VerifyForge_constructor_def getBaseUrl_def replace_trailing_slash_def
        split: if_splits)
  have 3: "snd (VerifyForge_constructor config) = Inr c \<longrightarrow> getTimeout c \<noteq> 0"
    by (auto simp: VerifyForge_constructor_def getTimeout_def split: if_splits option.splits)
  have 4: "snd (VerifyForge_constructor config) = Inr c \<longrightarrow> getBaseUrl c \<noteq> []"
    by (auto simp: VerifyForge_constructor_def getBaseUrl_def split: if_splits option.splits)
  show ?thesis using 1 2 3 4 by blast
qed

text \<open>The configuration with root \<open>/\<close> and deadline 0.\<close>

theorem C10_falsy_configuration_witness:
  "snd (VerifyForge_constructor \<lparr>apiKey = Some ''k1'', baseUrl = Some ''/'', timeout = Some 0\<rparr>)
     = Inr \<lparr>this_apiKey = ''k1'', this_baseUrl = ''https://verifyforge.com'',
             this_timeout = 30000\<rparr>
   \<and> getTimeout \<lparr>this_apiKey = ''k1'', this_baseUrl = ''https://verifyforge.com'',
                  this_timeout = 30000\<rparr> = 30000
   \<and> getBaseUrl \<lparr>this_apiKey = ''k1'', this_baseUrl = ''https://verifyforge.com'',
                  this_timeout = 30000\<rparr> = ''https://verifyforge.com''"
proof -
  have c: "snd (VerifyForge_constructor
                 \<lparr>apiKey = Some ''k1'', baseUrl = Some ''/'', timeout = Some 0\<rparr>)
     = Inr \<lparr>this_apiKey = ''k1'', this_baseUrl = ''https://verifyforge.com'',
             this_timeout = 30000\<rparr>"
    by (simp add: VerifyForge_constructor_def replace_trailing_slash_def)
  show ?thesis
    using c C10_falsy_configuration [of
        "\<lparr>apiKey = Some ''k1'', baseUrl = Some ''/'', timeout = Some 0\<rparr>"
        "\<lparr>this_apiKey = ''k1'', this_baseUrl = ''https://verifyforge.com'',
          this_timeout = 30000\<rparr>"]
    by simp
qed

section \<open>The request headers\<close>

text \<open>
  C9 as stated fails: the call that the executor issues carries four headers, not three;
  the fourth is the client identifier \<open>User-Agent\<close>.
\<close>

theorem C9_counterexample:
  "fst (makeRequest (\<lambda>r. Inl (NonError JNull))
         \<lparr>this_apiKey = ''k1'', this_baseUrl = ''https://verifyforge.com'',
           this_timeout = 30000\<rparr>
         GET ''/api/validate'' (Some [(''email'', JStr ''a@b.com'')]))
     = [\<lparr>req_url = ''https://verifyforge.com/api/validate'',
          req_query = Some [(''email'', ''a@b.com'')],
          req_method = GET,
          req_headers =
            [(''X-API-Key'', ''k1''),
             (''Content-Type'', ''application/json''),
             (''Accept'', ''application/json''),
             (''User-Agent'', ''VerifyForge-TypeScript-SDK/1.0.0'')],
          req_body = None,
          abort_after = 30000\<rparr>]
   \<and> length [(''X-API-Key'', ''k1''),
              (''Content-Type'', ''application/json''),
              (''Accept'', ''application/json''),
              (''User-Agent'', ''VerifyForge-TypeScript-SDK/1.0.0'')] \<noteq> (3::nat)"
  by (simp add: makeRequest_def Let_def fixed_headers_def)

text \<open>
  C9, amended. Every call that the executor issues carries exactly four headers:
  \<open>X-API-Key\<close> with the credential, \<open>Content-Type\<close> and \<open>Accept\<close>, both
  \<open>application/json\<close>, and \<open>User-Agent\<close> with the fixed client identifier.
\<close>

theorem C9_fixed_headers:
  "req \<in> set (fst (makeRequest fetch this method endpoint params)) \<longrightarrow>
     req_headers req =
       [(''X-API-Key'', this_apiKey this),
        (''Content-Type'', ''application/json''),
        (''Accept'', ''application/json''),
        (''User-Agent'', ''VerifyForge-TypeScript-SDK/1.0.0'')]
     \<and> length (req_headers req) = 4"
  by (auto simp: makeRequest_def Let_def fixed_headers_def split: option.splits sum.splits
      if_splits)

text \<open>The call of a bulk validation.\<close>

theorem C9_fixed_headers_witness:
  "req_headers
     \<lparr>req_url = ''https://verifyforge.com/api/validate/bulk'',
       req_query = None,
       req_method = POST,
       req_headers = fixed_headers \<lparr>this_apiKey = ''k1'',
           this_baseUrl = ''https://verifyforge.com'', this_timeout = 30000\<rparr>,
       req_body = Some (JObj [(''emails'', JArr [JStr ''a@b.com''])]),
       abort_after = 30000\<rparr>
   = [(''X-API-Key'', ''k1''),
      (''Content-Type'', ''application/json''),
      (''Accept'', ''application/json''),
      (''User-Agent'', ''VerifyForge-TypeScript-SDK/1.0.0'')]"
  using C9_fixed_headers [of
      "\<lparr>req_url = ''https://verifyforge.com/api/validate/bulk'',
        req_query = None,
        req_method = POST,
        req_headers = fixed_headers \<lparr>this_apiKey = ''k1'',
            this_baseUrl = ''https://verifyforge.com'', this_timeout = 30000\<rparr>,
        req_body = Some (JObj [(''emails'', JArr [JStr ''a@b.com''])]),
        abort_after = 30000\<rparr>"
      "\<lambda>r. Inl (NonError JNull)"
      "\<lparr>this_apiKey = ''k1'', this_baseUrl = ''https://verifyforge.com'',
        this_timeout = 30000\<rparr>"
      POST "''/api/validate/bulk''" "Some [(''emails'', JArr [JStr ''a@b.com''])]"]
  by (simp add: makeRequest_bulk_call)

section \<open>Status 400\<close>

text \<open>
  What the 400 branch does with a body that decodes to an object: the Validation error
  carries the payload's \<open>error\<close> when that is a non-empty string, "Validation failed"
  when it is absent or empty, and the payload's \<open>details\<close>.
\<close>

lemma dispatch_400_payload:
  assumes "status response = 400" and "json response = Inr (JObj kvs)"
  shows "map_of kvs ''error'' = Some (JStr m) \<Longrightarrow> m \<noteq> [] \<Longrightarrow>
           dispatch response =
             Inl (VF (ValidationError m
               (case map_of kvs ''details'' of None \<Rightarrow> JUndefined | Some d \<Rightarrow> d)))"
    and "map_of kvs ''error'' = None \<or> map_of kvs ''error'' = Some (JStr []) \<Longrightarrow>
           dispatch response =
             Inl (VF (ValidationError ''Validation failed''
               (case map_of kvs ''details'' of None \<Rightarrow> JUndefined | Some d \<Rightarrow> d)))"
  using assms by (auto simp: dispatch_def or_else_def)

lemma dispatch_400_example:
  "dispatch \<lparr>status = 400,
             json = Inr (JObj [(''success'', JBool False), (''error'', JStr ''bad email''),
                               (''details'', JObj [(''field'', JStr ''email'')])])\<rparr>
   = Inl (VF (ValidationError ''bad email'' (JObj [(''field'', JStr ''email'')])))"
  by (simp add: dispatch_def or_else_def)

text \<open>
  C4 does not hold on the code for a body that fails to decode. In the 400 branch
  \<open>response.json()\<close> has no fallback, unlike in the branch for the other non-2xx
  statuses: its \<open>SyntaxError\<close> reaches the catch block, and what the caller gets is a
  base-kind error with the decoder's message, without status code, error code or
  details, in place of a Validation error "Validation failed".
\<close>

theorem C4_undecodable_body:
  "makeRequest
     (\<lambda>r. Inr \<lparr>status = 400,
                json = Inl (JsError SyntaxErrorClass ''SyntaxError''
                             ''Unexpected token < in JSON at position 0'')\<rparr>)
     \<lparr>this_apiKey = ''k1'', this_baseUrl = ''https://verifyforge.com'', this_timeout = 30000\<rparr>
     GET ''/api/validate'' (Some [(''email'', JStr ''a@b.com'')])
   = ([\<lparr>req_url = ''https://verifyforge.com/api/validate'',
          req_query = Some [(''email'', ''a@b.com'')],
          req_method = GET,
          req_headers =
            [(''X-API-Key'', ''k1''),
             (''Content-Type'', ''application/json''),
             (''Accept'', ''application/json''),
             (''User-Agent'', ''VerifyForge-TypeScript-SDK/1.0.0'')],
          req_body = None,
          abort_after = 30000\<rparr>],
      Inl (VF \<lparr>kind = Base, name = ''VerifyForgeError'',
                message = ''Unexpected token < in JSON at position 0'',
                statusCode = None, errorCode = None, details = JUndefined,
                docsUrl = ''https://verifyforge.com/api-docs''\<rparr>))"
  by (simp add: makeRequest_def Let_def fixed_headers_def dispatch_def VerifyForgeError_def)

section \<open>The API errors\<close>

text \<open>
  What the executor does with a status of 500 or more, and with another status outside
  200 to 299 that is none of 400, 401, 402 and 429: in the first case an API error
  "Internal server error" with that status, whatever the body; in the second an API
  error with that status, whose message is "Request failed" when the body fails to
  decode, and otherwise the string that \<open>errorData.error || 'Request failed'\<close> converts
  to, provided that \<open>error\<close> can be read from the decoded body and converted. In
  particular the message is the payload's \<open>error\<close> when that is a non-empty string, and
  "Request failed" when it is absent or falsy.
\<close>

lemma dispatch_other_status:
  assumes "status response < 500" and "status response \<notin> {400, 401, 402, 429}"
    and "status response < 200 \<or> 299 < status response"
  shows "dispatch response =
        (case get_prop
                (case json response of
                   Inl e \<Rightarrow> JObj [(''error'', JStr ''Request failed'')]
                 | Inr errorData \<Rightarrow> errorData)
                ''error'' of
           Inl e \<Rightarrow> Inl e
         | Inr err \<Rightarrow>
             (case js_String (or_else err (JStr ''Request failed'')) of
                Inl e \<Rightarrow> Inl e
              | Inr msg \<Rightarrow> Inl (VF (APIError msg (Some (status response))))))"
  using assms by (auto simp: dispatch_def ok_def)

lemma makeRequest_api_errors:
  assumes "fst (makeRequest fetch this method endpoint params) = [req]"
    and "fetch req = Inr response"
  shows "(status response \<ge> 500 \<longrightarrow>
            snd (makeRequest fetch this method endpoint params) =
              Inl (VF (APIError ''Internal server error'' (Some (status response)))))
       \<and> (status response < 500 \<and> status response \<notin> {400, 401, 402, 429}
            \<and> (status response < 200 \<or> 299 < status response) \<longrightarrow>
            ((\<exists>x. json response = Inl x) \<longrightarrow>
               snd (makeRequest fetch this method endpoint params) =
                 Inl (VF (APIError ''Request failed'' (Some (status response)))))
          \<and> ((\<exists>v err. json response = Inr v \<and> get_prop v ''error'' = Inr err
                  \<and> js_String (or_else err (JStr ''Request failed'')) = Inr m) \<longrightarrow>
               snd (makeRequest fetch this method endpoint params) =
                 Inl (VF (APIError m (Some (status response)))))
          \<and> ((\<exists>v. json response = Inr v \<and> get_prop v ''error'' = Inr (JStr m)) \<and> m \<noteq> [] \<longrightarrow>
               snd (makeRequest fetch this method endpoint params) =
                 Inl (VF (APIError m (Some (status response)))))
          \<and> ((\<exists>v err. json response = Inr v \<and> get_prop v ''error'' = Inr err \<and> \<not> truthy err) \<longrightarrow>
               snd (makeRequest fetch this method endpoint params) =
                 Inl (VF (APIError ''Request failed'' (Some (status response))))))
       \<and> kind (APIError msg (Some (status response))) = API
       \<and> message (APIError msg (Some (status response))) = msg
       \<and> statusCode (APIError msg (Some (status response))) = Some (status response)"
proof -
  note out = makeRequest_resolved [OF assms]
  let ?other = "status response < 500 \<and> status response \<notin> {400, 401, 402, 429}
            \<and> (status response < 200 \<or> 299 < status response)"
  have 1: "status response \<ge> 500 \<longrightarrow>
      dispatch response = Inl (VF (APIError ''Internal server error'' (Some (status response))))"
    by (simp add: dispatch_def)
  have 2: "?other \<longrightarrow> ((\<exists>x. json response = Inl x) \<longrightarrow>
      dispatch response = Inl (VF (APIError ''Request failed'' (Some (status response)))))"
    using dispatch_other_status [of response] by (auto simp: or_else_def)
  have 3: "?other \<longrightarrow>
          ((\<exists>v err. json response = Inr v \<and> get_prop v ''error'' = Inr err
                  \<and> js_String (or_else err (JStr ''Request failed'')) = Inr m) \<longrightarrow>
      dispatch response = Inl (VF (APIError m (Some (status response)))))"
    using dispatch_other_status [of response] by auto
  have 4: "?other \<longrightarrow>
          ((\<exists>v. json response = Inr v \<and> get_prop v ''error'' = Inr (JStr m)) \<and> m \<noteq> [] \<longrightarrow>
      dispatch response = Inl (VF (APIError m (Some (status response)))))"
    using dispatch_other_status [of response] by (auto simp: or_else_def)
  have 5: "?other \<longrightarrow>
          ((\<exists>v err. json response = Inr v \<and> get_prop v ''error'' = Inr err \<and> \<not> truthy err) \<longrightarrow>
      dispatch response = Inl (VF (APIError ''Request failed'' (Some (status response)))))"
    using dispatch_other_status [of response] by (auto simp: or_else_def)
  have 6: "kind (APIError msg (Some (status response))) = API
       \<and> message (APIError msg (Some (status response))) = msg
       \<and> statusCode (APIError msg (Some (status response))) = Some (status response)"
    by (simp add: error_kinds error_messages error_statusCodes)
  show ?thesis
    unfolding out using 1 2 3 4 5 6 by simp
qed

text \<open>
  A 503 with a page of text, a 404 with an error payload, a 404 with a page of text, and
  a 404 whose \<open>error\<close> is a number.
\<close>

lemma dispatch_api_error_examples:
  "dispatch \<lparr>status = 503,
             json = Inl (JsError SyntaxErrorClass ''SyntaxError'' ''Unexpected token <'')\<rparr>
     = Inl (VF (APIError ''Internal server error'' (Some 503)))"
  "dispatch \<lparr>status = 404,
             json = Inr (JObj [(''success'', JBool False), (''error'', JStr ''Not found'')])\<rparr>
     = Inl (VF (APIError ''Not found'' (Some 404)))"
  "dispatch \<lparr>status = 404,
             json = Inl (JsError SyntaxErrorClass ''SyntaxError'' ''Unexpected token <'')\<rparr>
     = Inl (VF (APIError ''Request failed'' (Some 404)))"
  "dispatch \<lparr>status = 404, json = Inr (JObj [(''error'', JNum 42)])\<rparr>
     = Inl (VF (APIError ''42'' (Some 404)))"
  by (simp_all add: dispatch_def ok_def or_else_def digits_of.simps)

text \<open>
  C5 does not hold on the code for a body that decodes to \<open>null\<close>. The branch for the
  other non-2xx statuses guards the decoding with a fallback payload and the message
  with a fallback text, so that it throws an API error for every response it was written
  for; but the JSON text \<open>null\<close> decodes without failure, reading \<open>error\<close> from \<open>null\<close>
  throws a \<open>TypeError\<close> inside the \<open>try\<close> block, and the catch block takes every
  \<open>TypeError\<close> for a failure of the transport. For a 404 with that body the caller gets a
  Network error "Network request failed" without a status code, in place of an API error
  with the status 404.
\<close>

theorem C5_null_body:
  "makeRequest (\<lambda>r. Inr \<lparr>status = 404, json = Inr JNull\<rparr>)
     \<lparr>this_apiKey = ''k1'', this_baseUrl = ''https://verifyforge.com'', this_timeout = 30000\<rparr>
     GET ''/api/validate'' (Some [(''email'', JStr ''a@b.com'')])
   = ([\<lparr>req_url = ''https://verifyforge.com/api/validate'',
          req_query = Some [(''email'', ''a@b.com'')],
          req_method = GET,
          req_headers =
            [(''X-API-Key'', ''k1''),
             (''Content-Type'', ''application/json''),
             (''Accept'', ''application/json''),
             (''User-Agent'', ''VerifyForge-TypeScript-SDK/1.0.0'')],
          req_body = None,
          abort_after = 30000\<rparr>],
      Inl (VF \<lparr>kind = Network, name = ''NetworkError'',
                message = ''Network request failed'',
                statusCode = None, errorCode = Some ''NETWORK_ERROR'', details = JUndefined,
                docsUrl = ''https://verifyforge.com/api-docs''\<rparr>))"
  by (simp add: makeRequest_def Let_def fixed_headers_def dispatch_def ok_def NetworkError_def
      VerifyForgeError_def)

end
